theory Spec2Isabelle
  imports Complex_Main
begin

section \<open>Python exceptions\<close>

text \<open>The exceptions the modelled functions can raise. A function that can raise returns
  a sum: \<open>Inl\<close> the exception, \<open>Inr\<close> the value returned.\<close>

datatype py_error =
    IndexError
  | UnboundLocalError
  | ValueError
  | AttributeError
  | OverflowError

section \<open>services/flood\_service.py: point\_in\_polygon\<close>

text \<open>Coordinates are Python numbers; they are modelled as exact rationals, so the
  rounding of floating-point division is not part of the model.\<close>

type_synonym point = "rat \<times> rat"
type_synonym ring = "point list"

record pip_state =
  inside :: bool
  p1x :: rat
  p1y :: rat
  xinters :: "rat option"

text \<open>The body of the \<open>for\<close> loop for one vertex \<open>p2\<close>. The local \<open>xinters\<close> is only
  assigned when \<open>p1y != p2y\<close>; reading it before any assignment raises
  \<open>UnboundLocalError\<close>, and \<open>p1x == p2x or x <= xinters\<close> reads it only when the
  first disjunct is false.\<close>

definition edge_step :: "point \<Rightarrow> point \<Rightarrow> pip_state \<Rightarrow> py_error + pip_state" where
  "edge_step pt p2 s =
     (let x = fst pt; y = snd pt; p2x = fst p2; p2y = snd p2;
          moved = s\<lparr>p1x := p2x, p1y := p2y\<rparr>
      in if y > min (p1y s) p2y then
           if y \<le> max (p1y s) p2y then
             if x \<le> max (p1x s) p2x then
               let xi = (if p1y s \<noteq> p2y
                         then Some ((y - p1y s) * (p2x - p1x s) / (p2y - p1y s) + p1x s)
                         else xinters s)
               in if p1x s = p2x then Inr (moved\<lparr>inside := \<not> inside s, xinters := xi\<rparr>)
                  else (case xi of
                          None \<Rightarrow> Inl UnboundLocalError
                        | Some v \<Rightarrow>
                            if x \<le> v then Inr (moved\<lparr>inside := \<not> inside s, xinters := xi\<rparr>)
                            else Inr (moved\<lparr>xinters := xi\<rparr>))
             else Inr moved
           else Inr moved
         else Inr moved)"

text \<open>\<open>for i in range(n + 1): p2x, p2y = polygon[i % n]\<close>.\<close>

fun pip_loop :: "point \<Rightarrow> ring \<Rightarrow> nat list \<Rightarrow> pip_state \<Rightarrow> py_error + bool" where
  "pip_loop pt polygon [] s = Inr (inside s)"
| "pip_loop pt polygon (i # idxs) s =
     (case edge_step pt (polygon ! (i mod length polygon)) s of
        Inl e \<Rightarrow> Inl e
      | Inr s' \<Rightarrow> pip_loop pt polygon idxs s')"

text \<open>\<open>polygon[0]\<close> raises \<open>IndexError\<close> on an empty ring.\<close>

definition point_in_polygon :: "point \<Rightarrow> ring \<Rightarrow> py_error + bool" where
  "point_in_polygon pt polygon =
     (case polygon of
        [] \<Rightarrow> Inl IndexError
      | p # _ \<Rightarrow>
          pip_loop pt polygon [0 ..< length polygon + 1]
            \<lparr>inside = False, p1x = fst p, p1y = snd p, xinters = None\<rparr>)"

definition square_ring :: ring where
  "square_ring = [(0, 0), (0, 10), (10, 10), (10, 0)]"

section \<open>services/flood\_service.py: check\_point\_in\_flood\_zones\<close>
















section \<open>Printing integers\<close>

text \<open>\<open>str(n)\<close> and the f-string field \<open>{n}\<close> of a Python int: its decimal digits,
  with a minus sign when negative. \<open>{n:02d}\<close> pads with a zero to width 2.\<close>

definition digit_char :: "nat \<Rightarrow> char" where
  "digit_char d = ''0123456789'' ! (d mod 10)"

function str_nat :: "nat \<Rightarrow> string" where
  "str_nat n = (if n < 10 then [digit_char n] else str_nat (n div 10) @ [digit_char (n mod 10)])"
  by pat_completeness auto
termination
  by (relation "measure id") auto

definition str_int :: "int \<Rightarrow> string" where
  "str_int i = (if i < 0 then CHR ''-'' # str_nat (nat (- i)) else str_nat (nat i))"

definition fmt_02d :: "int \<Rightarrow> string" where
  "fmt_02d i = (if 0 \<le> i \<and> i < 10 then CHR ''0'' # str_int i else str_int i)"

section \<open>utils/data\_fetcher.py: make\_request\<close>

text \<open>What one call of \<open>requests.get\<close> does: it returns a response, or raises
  \<open>Timeout\<close>, or raises another \<open>RequestException\<close> (with its message). Of a
  response the code reads the status code, the body text, the decoded JSON body (a 200
  body is taken to decode) and the \<open>Retry-After\<close> header; the header is absent, or a
  text \<open>int()\<close> accepts (with its value), or a text \<open>int()\<close> rejects with
  \<open>ValueError\<close>. \<open>max_retries\<close> and \<open>retry_delay\<close> are integers.\<close>

datatype retry_after_header = NoHeader | HeaderInt int | HeaderNotInt

record 'j response =
  status_code :: int
  body_text :: string
  header_retry_after :: retry_after_header
  json :: 'j

datatype 'j outcome = Response "'j response" | Timeout | RequestException string

text \<open>The value returned: the decoded body, or an error dictionary with its \<open>error\<close>
  text and, for a status error, its \<open>details\<close>.\<close>

datatype 'j reply = Json 'j | ErrorDict string "string option"

text \<open>\<open>requests\<close> counts the calls of \<open>requests.get\<close>, \<open>sleeps\<close> lists the arguments
  of \<open>time.sleep\<close> in order; \<open>result\<close> is \<open>Inl\<close> when an exception leaves the function.\<close>

record 'j request_run =
  result :: "py_error + 'j reply"
  requests :: nat
  sleeps :: "int list"

text \<open>\<open>int(response.headers.get('Retry-After', retry_delay * 2))\<close>.\<close>

definition retry_after_seconds :: "'j response \<Rightarrow> int \<Rightarrow> py_error + int" where
  "retry_after_seconds r retry_delay =
     (case header_retry_after r of
        NoHeader \<Rightarrow> Inr (retry_delay * 2)
      | HeaderInt n \<Rightarrow> Inr n
      | HeaderNotInt \<Rightarrow> Inl ValueError)"

text \<open>The \<open>for attempt in range(max_retries)\<close> loop from \<open>attempt\<close> on. The network is
  the outcome of the n-th call of \<open>requests.get\<close>; each attempt makes one call, so the
  attempt number is also the number of calls made so far. \<open>time.sleep\<close> raises
  \<open>ValueError\<close> on a negative argument, and neither that nor the \<open>ValueError\<close> of
  \<open>int()\<close> is caught.\<close>

function make_request_loop ::
    "(nat \<Rightarrow> 'j outcome) \<Rightarrow> int \<Rightarrow> int \<Rightarrow> nat \<Rightarrow> int list \<Rightarrow> 'j request_run" where
  "make_request_loop net max_retries retry_delay attempt slept =
     (if int attempt < max_retries then
        (case net attempt of
           Response r \<Rightarrow>
             if status_code r = 200 then
               \<lparr>result = Inr (Json (json r)), requests = Suc attempt, sleeps = slept\<rparr>
             else if status_code r = 429 then
               (case retry_after_seconds r retry_delay of
                  Inl e \<Rightarrow> \<lparr>result = Inl e, requests = Suc attempt, sleeps = slept\<rparr>
                | Inr retry_after \<Rightarrow>
                    if retry_after < 0
                    then \<lparr>result = Inl ValueError, requests = Suc attempt, sleeps = slept\<rparr>
                    else make_request_loop net max_retries retry_delay (Suc attempt)
                           (slept @ [retry_after]))
             else
               \<lparr>result = Inr (ErrorDict
                   (''Request failed with status code: '' @ str_int (status_code r))
                   (Some (if body_text r \<noteq> [] then body_text r
                          else ''No details available''))),
                requests = Suc attempt, sleeps = slept\<rparr>
         | Timeout \<Rightarrow>
             if int attempt < max_retries - 1 then
               if retry_delay < 0
               then \<lparr>result = Inl ValueError, requests = Suc attempt, sleeps = slept\<rparr>
               else make_request_loop net max_retries retry_delay (Suc attempt)
                      (slept @ [retry_delay])
             else \<lparr>result = Inr (ErrorDict ''Request timed out'' None),
                   requests = Suc attempt, sleeps = slept\<rparr>
         | RequestException msg \<Rightarrow>
             \<lparr>result = Inr (ErrorDict (''Request failed: '' @ msg) None),
              requests = Suc attempt, sleeps = slept\<rparr>)
      else \<lparr>result = Inr (ErrorDict ''Maximum retry attempts reached'' None),
            requests = attempt, sleeps = slept\<rparr>)"
  by pat_completeness auto
termination
  by (relation "measure (\<lambda>(net, max_retries, retry_delay, attempt, slept).
        nat (max_retries - int attempt))") auto

definition make_request :: "(nat \<Rightarrow> 'j outcome) \<Rightarrow> int \<Rightarrow> int \<Rightarrow> 'j request_run" where
  "make_request net max_retries retry_delay = make_request_loop net max_retries retry_delay 0 []"

text \<open>An attempt after which the loop goes on to the next one: a 429 whose wait can be
  slept, or a timeout that is not the last attempt.\<close>

definition rate_limited :: "'j outcome \<Rightarrow> int \<Rightarrow> bool" where
  "rate_limited out retry_delay =
     (case out of
        Response r \<Rightarrow>
          status_code r = 429 \<and>
          (case retry_after_seconds r retry_delay of Inl e \<Rightarrow> False | Inr n \<Rightarrow> 0 \<le> n)
      | _ \<Rightarrow> False)"

definition continues :: "(nat \<Rightarrow> 'j outcome) \<Rightarrow> int \<Rightarrow> int \<Rightarrow> nat \<Rightarrow> bool" where
  "continues net max_retries retry_delay i =
     (rate_limited (net i) retry_delay \<or>
      (net i = Timeout \<and> int i < max_retries - 1 \<and> 0 \<le> retry_delay))"

text \<open>The wait slept after attempt \<open>i\<close> when the loop goes on.\<close>

definition wait_after :: "(nat \<Rightarrow> 'j outcome) \<Rightarrow> int \<Rightarrow> nat \<Rightarrow> int" where
  "wait_after net retry_delay i =
     (case net i of
        Response r \<Rightarrow>
          (case retry_after_seconds r retry_delay of Inl e \<Rightarrow> 0 | Inr n \<Rightarrow> n)
      | _ \<Rightarrow> retry_delay)"

text \<open>Concrete networks: a 429 followed by a 200, and a timeout followed by a 429.\<close>

definition too_many :: "unit response" where
  "too_many = \<lparr>status_code = 429, body_text = ''slow down'', header_retry_after = NoHeader, json = ()\<rparr>"



definition timeout_then_limited :: "nat \<Rightarrow> unit outcome" where
  "timeout_then_limited n = (if n = 0 then Timeout else Response too_many)"


definition always_limited :: "nat \<Rightarrow> unit outcome" where
  "always_limited n = Response too_many"

section \<open>services/crime\_service.py\<close>

text \<open>The date of a \<open>datetime\<close>, as read from \<open>datetime.datetime.now()\<close> and as
  \<open>strptime\<close> builds it from a date text (then at midnight): year, month and day.\<close>

record datetime =
  year :: int
  month :: int
  day :: int

text \<open>The query parameters of one request to the street-crime endpoint. The radius is
  \<open>min(radius_km * 0.621371, 1.0)\<close> and is always sent, since it never exceeds 1.\<close>

record crime_request =
  req_lat :: rat
  req_lng :: rat
  req_date :: string
  req_radius :: "rat option"

text \<open>What \<open>requests.get\<close> does for one request: a response, whose JSON body is a list
  of crimes when the status is 200, or an exception with its message.\<close>

datatype 'c crime_fetch = Fetched "('c list) response" | Raised string

text \<open>What \<open>get_crime_data_for_date\<close> returns: the list of the month, or an error
  dictionary (\<open>error\<close>, and \<open>details\<close> for a status error).\<close>

datatype 'c month_result = CrimeList "'c list" | CrimeError string "string option"

definition get_crime_data_for_date ::
    "(crime_request \<Rightarrow> 'c crime_fetch) \<Rightarrow> rat \<Rightarrow> rat \<Rightarrow> rat \<Rightarrow> string
       \<Rightarrow> 'c month_result \<times> crime_request" where
  "get_crime_data_for_date provider latitude longitude radius_km date_str =
     (let radius_miles = min (radius_km * (621371 / 1000000)) 1;
          params = \<lparr>req_lat = latitude, req_lng = longitude, req_date = date_str,
                    req_radius = (if radius_miles \<le> 1 then Some radius_miles else None)\<rparr>
      in (case provider params of
            Fetched r \<Rightarrow>
              if status_code r = 200 then CrimeList (json r)
              else CrimeError
                     (''Request failed with status code: '' @ str_int (status_code r))
                     (Some (if body_text r \<noteq> [] then body_text r
                            else ''No details available''))
          | Raised msg \<Rightarrow> CrimeError (''Failed to fetch crime data: '' @ msg) None,
          params))"

text \<open>\<open>while current_month <= 0: current_month += 12; current_year -= 1\<close>.\<close>

function wrap_around :: "int \<Rightarrow> int \<Rightarrow> int \<times> int" where
  "wrap_around current_month current_year =
     (if current_month \<le> 0 then wrap_around (current_month + 12) (current_year - 1)
      else (current_month, current_year))"
  by pat_completeness auto
termination
  by (relation "measure (\<lambda>(current_month, current_year). nat (1 - current_month))") auto

text \<open>The date string of iteration \<open>i\<close>: \<open>f"{current_year}-{current_month:02d}"\<close>.\<close>

definition month_date_str :: "datetime \<Rightarrow> nat \<Rightarrow> string" where
  "month_date_str today i =
     (case wrap_around (month today - int i) (year today) of
        (current_month, current_year) \<Rightarrow>
          str_int current_year @ ''-'' @ fmt_02d current_month)"

text \<open>The body of \<open>for i in range(12)\<close> in \<open>get_crime_data\<close>, on the list built so far
  and the requests issued so far. A month whose result is an error dictionary adds
  nothing. The pause \<open>time.sleep(0.2)\<close> after each month changes no value and is left
  out.\<close>

definition crime_month_step ::
    "(crime_request \<Rightarrow> 'c crime_fetch) \<Rightarrow> rat \<Rightarrow> rat \<Rightarrow> rat \<Rightarrow> datetime \<Rightarrow> nat
       \<Rightarrow> 'c list \<times> crime_request list \<Rightarrow> 'c list \<times> crime_request list" where
  "crime_month_step provider latitude longitude radius today i acc =
     (case get_crime_data_for_date provider latitude longitude radius (month_date_str today i) of
        (month_crimes, request) \<Rightarrow>
          (case month_crimes of
             CrimeList cs \<Rightarrow> (fst acc @ cs, snd acc @ [request])
           | CrimeError e d \<Rightarrow> (fst acc, snd acc @ [request])))"

text \<open>\<open>get_crime_data\<close>: with a non-empty \<open>date\<close>, that month only; otherwise the
  twelve-month loop. The second component lists the requests issued, in order.\<close>

definition get_crime_data ::
    "(crime_request \<Rightarrow> 'c crime_fetch) \<Rightarrow> rat \<Rightarrow> rat \<Rightarrow> rat \<Rightarrow> string option \<Rightarrow> datetime
       \<Rightarrow> 'c month_result \<times> crime_request list" where
  "get_crime_data provider latitude longitude radius date today =
     (case date of
        Some d \<Rightarrow>
          if d \<noteq> [] then
            (case get_crime_data_for_date provider latitude longitude radius d of
               (r, request) \<Rightarrow> (r, [request]))
          else
            (case fold (crime_month_step provider latitude longitude radius today) [0 ..< 12]
                    ([], []) of
               (all_crimes, issued) \<Rightarrow> (CrimeList all_crimes, issued))
      | None \<Rightarrow>
          (case fold (crime_month_step provider latitude longitude radius today) [0 ..< 12]
                  ([], []) of
             (all_crimes, issued) \<Rightarrow> (CrimeList all_crimes, issued)))"

text \<open>The loop body of \<open>get_last_year_monthly_data\<close>: \<open>monthly_data[date_str] = crimes\<close>
  unless the result is an error dictionary.\<close>

definition monthly_step ::
    "(crime_request \<Rightarrow> 'c crime_fetch) \<Rightarrow> rat \<Rightarrow> rat \<Rightarrow> rat \<Rightarrow> datetime \<Rightarrow> nat
       \<Rightarrow> (string \<rightharpoonup> 'c list) \<times> crime_request list
       \<Rightarrow> (string \<rightharpoonup> 'c list) \<times> crime_request list" where
  "monthly_step provider latitude longitude radius today i acc =
     (case get_crime_data_for_date provider latitude longitude radius (month_date_str today i) of
        (crimes, request) \<Rightarrow>
          (case crimes of
             CrimeList cs \<Rightarrow> ((fst acc)(month_date_str today i \<mapsto> cs), snd acc @ [request])
           | CrimeError e d \<Rightarrow> (fst acc, snd acc @ [request])))"

definition get_last_year_monthly_data ::
    "(crime_request \<Rightarrow> 'c crime_fetch) \<Rightarrow> rat \<Rightarrow> rat \<Rightarrow> rat \<Rightarrow> datetime
       \<Rightarrow> (string \<rightharpoonup> 'c list) \<times> crime_request list" where
  "get_last_year_monthly_data provider latitude longitude radius today =
     fold (monthly_step provider latitude longitude radius today) [0 ..< 12] (Map.empty, [])"

text \<open>The calendar month \<open>i\<close> months before month \<open>m\<close> of year \<open>y\<close>, as (year, month),
  and the text \<open>YYYY-MM\<close> of a month: four digits, a hyphen, two digits.\<close>

definition months_back :: "int \<Rightarrow> int \<Rightarrow> nat \<Rightarrow> int \<times> int" where
  "months_back y m i =
     (let k = y * 12 + (m - 1) - int i in (k div 12, k mod 12 + 1))"

definition yyyy_mm :: "int \<times> int \<Rightarrow> string" where
  "yyyy_mm ym =
     (case ym of (y, m) \<Rightarrow>
        [digit_char (nat y div 1000), digit_char (nat y div 100), digit_char (nat y div 10),
         digit_char (nat y), CHR ''-'', digit_char (nat m div 10), digit_char (nat m)])"

definition is_digit :: "char \<Rightarrow> bool" where
  "is_digit c = (c \<in> set ''0123456789'')"

definition is_yyyy_mm :: "string \<Rightarrow> bool" where
  "is_yyyy_mm s =
     (case s of
        [a, b, c, d, e, f, g] \<Rightarrow>
          is_digit a \<and> is_digit b \<and> is_digit c \<and> is_digit d \<and> e = CHR ''-'' \<and>
          [f, g] \<in> set [''01'', ''02'', ''03'', ''04'', ''05'', ''06'',
                        ''07'', ''08'', ''09'', ''10'', ''11'', ''12'']
      | _ \<Rightarrow> False)"

text \<open>The crimes a month contributes: its list, or nothing when its request errored.\<close>

definition crimes_of :: "'c month_result \<Rightarrow> 'c list" where
  "crimes_of r = (case r of CrimeList cs \<Rightarrow> cs | CrimeError e d \<Rightarrow> [])"

definition listed :: "'c month_result \<Rightarrow> 'c list option" where
  "listed r = (case r of CrimeList cs \<Rightarrow> Some cs | CrimeError e d \<Rightarrow> None)"

text \<open>A provider that has data for March and February 2024 only, and the day
  2024-03-15.\<close>

definition march_2024 :: datetime where
  "march_2024 = \<lparr>year = 2024, month = 3, day = 15\<rparr>"

definition sparse_provider :: "crime_request \<Rightarrow> string crime_fetch" where
  "sparse_provider q =
     (if req_date q = ''2024-03'' then
        Fetched \<lparr>status_code = 200, body_text = ''[...]'', header_retry_after = NoHeader,
                 json = [''burglary'', ''robbery'']\<rparr>
      else if req_date q = ''2024-02'' then
        Fetched \<lparr>status_code = 200, body_text = ''[...]'', header_retry_after = NoHeader,
                 json = [''drugs'']\<rparr>
      else if req_date q = ''2023-12'' then Raised ''connection reset''
      else Fetched \<lparr>status_code = 404, body_text = '''', header_retry_after = NoHeader,
                    json = []\<rparr>)"

text \<open>The twelve most recent calendar months ending at the month of \<open>today\<close>, newest
  first, as \<open>YYYY-MM\<close> texts.\<close>

definition recent_months :: "datetime \<Rightarrow> string list" where
  "recent_months today =
     map (\<lambda>i. yyyy_mm (months_back (year today) (month today) i)) [0 ..< 12]"

section \<open>services/location\_service.py: get\_location\_data\<close>







section \<open>Dates as texts\<close>

text \<open>\<open>datetime.strptime\<close> and \<open>strftime\<close> for the two formats used, \<open>%Y-%m\<close> and
  \<open>%Y-%m-%d\<close>. \<open>%Y\<close> reads exactly four digits; \<open>%m\<close> reads one or two digits
  with a value from 1 to 12; \<open>%d\<close> reads one or two digits with a value from 1 to 31,
  or a space and a digit from 1 to 9. The whole text must be consumed, the year must be
  at least 1 and the day must exist in the month; otherwise \<open>ValueError\<close> is raised,
  which is \<open>None\<close> here.\<close>

definition digit_val :: "char \<Rightarrow> nat" where
  "digit_val c = length (takeWhile (\<lambda>d. d \<noteq> c) ''0123456789'')"

definition int_of_digits :: "string \<Rightarrow> int" where
  "int_of_digits s = foldl (\<lambda>a c. 10 * a + int (digit_val c)) 0 s"

definition all_digits :: "string \<Rightarrow> bool" where
  "all_digits s = list_all is_digit s"

definition month_token :: "string \<Rightarrow> bool" where
  "month_token t =
     ((length t = 1 \<or> length t = 2) \<and> all_digits t \<and>
      1 \<le> int_of_digits t \<and> int_of_digits t \<le> 12)"

definition day_token :: "string \<Rightarrow> bool" where
  "day_token t =
     (((length t = 1 \<or> length t = 2) \<and> all_digits t \<and>
       1 \<le> int_of_digits t \<and> int_of_digits t \<le> 31) \<or>
      (length t = 2 \<and> hd t = CHR '' '' \<and> all_digits (tl t) \<and> 1 \<le> int_of_digits (tl t)))"

definition day_value :: "string \<Rightarrow> int" where
  "day_value t = int_of_digits (dropWhile (\<lambda>c. c = CHR '' '') t)"

definition is_leap :: "int \<Rightarrow> bool" where
  "is_leap y = (y mod 4 = 0 \<and> (y mod 100 \<noteq> 0 \<or> y mod 400 = 0))"

definition days_in_month :: "int \<Rightarrow> int \<Rightarrow> int" where
  "days_in_month y m =
     (if m = 2 \<and> is_leap y then 29
      else [31, 28, 31, 30, 31, 30, 31, 31, 30, 31, 30, 31] ! nat (m - 1))"

definition strptime_ym :: "string \<Rightarrow> datetime option" where
  "strptime_ym s =
     (let y = take 4 s in
      if length y = 4 \<and> all_digits y \<and> 1 \<le> int_of_digits y then
        (case drop 4 s of
           [] \<Rightarrow> None
         | c # mtok \<Rightarrow>
             if c = CHR ''-'' \<and> month_token mtok
             then Some \<lparr>year = int_of_digits y, month = int_of_digits mtok, day = 1\<rparr>
             else None)
      else None)"

definition strptime_ymd :: "string \<Rightarrow> datetime option" where
  "strptime_ymd s =
     (let y = take 4 s in
      if length y = 4 \<and> all_digits y \<and> 1 \<le> int_of_digits y then
        (case drop 4 s of
           [] \<Rightarrow> None
         | c # rest \<Rightarrow>
             (let mtok = takeWhile (\<lambda>c. c \<noteq> CHR ''-'') rest in
              case dropWhile (\<lambda>c. c \<noteq> CHR ''-'') rest of
                [] \<Rightarrow> None
              | h # dtok \<Rightarrow>
                  if c = CHR ''-'' \<and> month_token mtok \<and> day_token dtok \<and>
                     day_value dtok \<le> days_in_month (int_of_digits y) (int_of_digits mtok)
                  then Some \<lparr>year = int_of_digits y, month = int_of_digits mtok,
                             day = day_value dtok\<rparr>
                  else None))
      else None)"

text \<open>\<open>strftime('%Y-%m-%d')\<close>: the year zero-padded to four digits, month and day to
  two.\<close>

definition fmt_04d :: "int \<Rightarrow> string" where
  "fmt_04d i = replicate (4 - length (str_int i)) CHR ''0'' @ str_int i"

definition strftime_ymd :: "datetime \<Rightarrow> string" where
  "strftime_ymd d = fmt_04d (year d) @ ''-'' @ fmt_02d (month d) @ ''-'' @ fmt_02d (day d)"

text \<open>\<open>toordinal\<close>: the number of the day, 1 for 0001-01-01. The difference of two
  midnights is the difference of their ordinals, in days, and they compare as their
  ordinals do.\<close>

definition days_before_year :: "int \<Rightarrow> int" where
  "days_before_year y = (let p = y - 1 in p * 365 + p div 4 - p div 100 + p div 400)"

definition days_before_month :: "int \<Rightarrow> int \<Rightarrow> int" where
  "days_before_month y m =
     [0, 31, 59, 90, 120, 151, 181, 212, 243, 273, 304, 334] ! nat (m - 1) +
     (if m > 2 \<and> is_leap y then 1 else 0)"

definition toordinal :: "datetime \<Rightarrow> int" where
  "toordinal d = days_before_year (year d) + days_before_month (year d) (month d) + day d"

section \<open>services/property\_service.py: get\_uk\_house\_price\_index\<close>

text \<open>One binding of the query result, as the loop reads it: the text of \<open>refMonth\<close>
  (empty when absent) and, for each price and each annual change, the number
  \<open>float()\<close> makes of its value, or \<open>None\<close> when the key is absent. Prices are exact
  rationals here.\<close>

record hpi_row =
  refMonth :: string
  averagePrice :: "rat option"
  averagePriceDetached :: "rat option"
  averagePriceSemiDetached :: "rat option"
  averagePriceTerraced :: "rat option"
  averagePriceFlatMaisonette :: "rat option"
  percentageAnnualChange :: "rat option"
  percentageAnnualChangeDetached :: "rat option"
  percentageAnnualChangeSemiDetached :: "rat option"
  percentageAnnualChangeTerraced :: "rat option"
  percentageAnnualChangeFlatMaisonette :: "rat option"

text \<open>An entry of \<open>price_data\<close>; the key \<open>percentage_annual_change\<close> is optional.\<close>

record price_entry =
  date :: string
  average_price :: int
  property_type :: string
  percentage_annual_change :: "rat option"

text \<open>\<open>round(x)\<close> rounds to the nearest integer, a half to the even neighbour;
  \<open>round(x, 2)\<close> does so at the second decimal.\<close>

definition py_round :: "rat \<Rightarrow> int" where
  "py_round x =
     (let f = \<lfloor>x\<rfloor>; r = x - of_int f
      in if r < 1 / 2 then f else if r > 1 / 2 then f + 1
         else if even f then f else f + 1)"

definition py_round2 :: "rat \<Rightarrow> rat" where
  "py_round2 x = of_int (py_round (x * 100)) / 100"

text \<open>The block the source repeats for each of the five property types: a price above
  zero is a candidate; \<open>next(...)\<close> looks for the first entry with the same date and
  type and a different rounded price, and the candidate is appended when there is
  none.\<close>

definition add_channel ::
    "price_entry list \<Rightarrow> string \<Rightarrow> string \<Rightarrow> rat \<Rightarrow> rat option \<Rightarrow> price_entry list" where
  "add_channel price_data formatted_date ptype price pct_change =
     (if price > 0 then
        (case find (\<lambda>item. date item = formatted_date \<and> property_type item = ptype \<and>
                           average_price item \<noteq> py_round price) price_data of
           None \<Rightarrow>
             price_data @
               [\<lparr>date = formatted_date, average_price = py_round price,
                 property_type = ptype,
                 percentage_annual_change = map_option py_round2 pct_change\<rparr>]
         | Some existing_entry \<Rightarrow> price_data)
      else price_data)"

text \<open>The date of a row: \<open>strptime(date_str, '%Y-%m')\<close> printed as \<open>%Y-%m-%d\<close>, and
  when that raises, \<open>date_str + "-01"\<close> if the text has a hyphen, else the text.\<close>

definition formatted_date_of :: "string \<Rightarrow> string" where
  "formatted_date_of date_str =
     (case strptime_ym date_str of
        Some date_obj \<Rightarrow> strftime_ymd date_obj
      | None \<Rightarrow> if CHR ''-'' \<in> set date_str then date_str @ ''-01'' else date_str)"

definition price_of :: "rat option \<Rightarrow> rat" where
  "price_of v = (case v of Some x \<Rightarrow> x | None \<Rightarrow> 0)"

text \<open>The body of \<open>for entry in hpi_data\<close>.\<close>

definition process_row :: "hpi_row \<Rightarrow> price_entry list \<Rightarrow> price_entry list" where
  "process_row entry price_data =
     (let formatted_date = formatted_date_of (refMonth entry);
          pd1 = add_channel price_data formatted_date ''Average''
                  (price_of (averagePrice entry)) (percentageAnnualChange entry);
          pd2 = add_channel pd1 formatted_date ''Detached''
                  (price_of (averagePriceDetached entry)) (percentageAnnualChangeDetached entry);
          pd3 = add_channel pd2 formatted_date ''Semi-detached''
                  (price_of (averagePriceSemiDetached entry))
                  (percentageAnnualChangeSemiDetached entry);
          pd4 = add_channel pd3 formatted_date ''Terraced''
                  (price_of (averagePriceTerraced entry)) (percentageAnnualChangeTerraced entry)
      in add_channel pd4 formatted_date ''Flat/Maisonette''
           (price_of (averagePriceFlatMaisonette entry))
           (percentageAnnualChangeFlatMaisonette entry))"

definition build_price_data :: "hpi_row list \<Rightarrow> price_entry list" where
  "build_price_data hpi_data = fold process_row hpi_data []"

text \<open>\<open>max(xs)\<close> and \<open>min(xs, key=...)\<close> keep the first of equal elements and raise
  \<open>ValueError\<close> on an empty list.\<close>

fun first_best :: "('a \<Rightarrow> 'a \<Rightarrow> bool) \<Rightarrow> 'a \<Rightarrow> 'a list \<Rightarrow> 'a" where
  "first_best better best [] = best"
| "first_best better best (x # xs) = first_best better (if better x best then x else best) xs"

definition py_max :: "datetime list \<Rightarrow> py_error + datetime" where
  "py_max xs =
     (case xs of
        [] \<Rightarrow> Inl ValueError
      | x # rest \<Rightarrow> Inr (first_best (\<lambda>a b. toordinal a > toordinal b) x rest))"

definition py_min_key :: "(datetime \<Rightarrow> int) \<Rightarrow> datetime list \<Rightarrow> py_error + datetime" where
  "py_min_key key xs =
     (case xs of
        [] \<Rightarrow> Inl ValueError
      | x # rest \<Rightarrow> Inr (first_best (\<lambda>a b. key a < key b) x rest))"

text \<open>\<open>[datetime.strptime(item['date'], '%Y-%m-%d') for item in items]\<close>: the first
  text that does not parse raises \<open>ValueError\<close>.\<close>

fun parse_dates :: "price_entry list \<Rightarrow> py_error + datetime list" where
  "parse_dates [] = Inr []"
| "parse_dates (item # items) =
     (case strptime_ymd (date item) of
        None \<Rightarrow> Inl ValueError
      | Some d \<Rightarrow>
          (case parse_dates items of
             Inl e \<Rightarrow> Inl e
           | Inr ds \<Rightarrow> Inr (d # ds)))"

text \<open>\<open>next((item['average_price'] for item in price_data if item['date'] == s and
  item['property_type'] == 'Average'), 0)\<close>.\<close>

definition average_at :: "price_entry list \<Rightarrow> string \<Rightarrow> int" where
  "average_at price_data s =
     (case find (\<lambda>item. date item = s \<and> property_type item = ''Average'') price_data of
        Some item \<Rightarrow> average_price item
      | None \<Rightarrow> 0)"

record price_summary =
  current_average_price :: "int option"
  yearly_change_percentage :: "rat option"
  price_data_of :: "price_entry list"

text \<open>The code after the loop, from \<open>if price_data:\<close> on, for a non-empty list. Every
  exception is caught by the function's \<open>except Exception\<close> and becomes its error
  result; \<open>recent_date - timedelta(days=365)\<close> raises \<open>OverflowError\<close> when the day
  would lie before 0001-01-01. The entries \<open>property_types\<close> and \<open>region_name\<close> of the
  result are left out.\<close>

datatype hpi_error =
    QueryFailed int
  | NoIndexData
  | NoValidData
  | Failed py_error

definition summarise :: "price_entry list \<Rightarrow> hpi_error + price_summary" where
  "summarise price_data =
     (let average_entries = filter (\<lambda>item. property_type item = ''Average'') price_data in
      case parse_dates average_entries of
        Inl e \<Rightarrow> Inl (Failed e)
      | Inr dates \<Rightarrow>
          (case py_max dates of
             Inl e \<Rightarrow> Inl (Failed e)
           | Inr recent_date \<Rightarrow>
               if toordinal recent_date - 365 < 1 then Inl (Failed OverflowError)
               else
                 (let year_ago = toordinal recent_date - 365;
                      average_recent = average_at price_data (strftime_ymd recent_date);
                      yearly =
                        (case py_min_key (\<lambda>d. \<bar>toordinal d - year_ago\<bar>) dates of
                           Inl e \<Rightarrow> None
                         | Inr closest_year_ago \<Rightarrow>
                             (let average_year_ago =
                                    average_at price_data (strftime_ymd closest_year_ago)
                              in if average_year_ago > 0
                                 then Some ((rat_of_int (average_recent - average_year_ago) /
                                             rat_of_int average_year_ago) * 100)
                                 else None))
                  in Inr \<lparr>current_average_price =
                             (if average_recent > 0 then Some average_recent else None),
                           yearly_change_percentage = yearly,
                           price_data_of = price_data\<rparr>)))"

text \<open>The answer of the query endpoint: a status other than 200, a body without
  \<open>results.bindings\<close>, or the list of bindings.\<close>

datatype sparql_answer = Status int | NoBindings | Bindings "hpi_row list"

definition get_uk_house_price_index :: "sparql_answer \<Rightarrow> hpi_error + price_summary" where
  "get_uk_house_price_index answer =
     (case answer of
        Status code \<Rightarrow> Inl (QueryFailed code)
      | NoBindings \<Rightarrow> Inl NoIndexData
      | Bindings hpi_data \<Rightarrow>
          if hpi_data = [] then Inl NoIndexData
          else (let price_data = build_price_data hpi_data
                in if price_data \<noteq> [] then summarise price_data else Inl NoValidData))"

text \<open>Rows for the examples: a month with one price for one type.\<close>

definition blank_row :: hpi_row where
  "blank_row =
     \<lparr>refMonth = '''', averagePrice = None, averagePriceDetached = None,
      averagePriceSemiDetached = None, averagePriceTerraced = None,
      averagePriceFlatMaisonette = None, percentageAnnualChange = None,
      percentageAnnualChangeDetached = None, percentageAnnualChangeSemiDetached = None,
      percentageAnnualChangeTerraced = None, percentageAnnualChangeFlatMaisonette = None\<rparr>"

definition detached_row :: "string \<Rightarrow> rat \<Rightarrow> hpi_row" where
  "detached_row m p = blank_row\<lparr>refMonth := m, averagePriceDetached := Some p\<rparr>"

definition average_row :: "string \<Rightarrow> rat \<Rightarrow> hpi_row" where
  "average_row m p = blank_row\<lparr>refMonth := m, averagePrice := Some p\<rparr>"

definition detached_entry :: "int \<Rightarrow> price_entry" where
  "detached_entry p =
     \<lparr>date = ''2024-01-01'', average_price = p, property_type = ''Detached'',
      percentage_annual_change = None\<rparr>"

text \<open>An entry whose date text is one \<open>strftime\<close> prints, for a day from 0002-01-01 on:
  it parses, printing the parsed date gives the text back, and 365 days earlier is
  still a date.\<close>

definition canonical :: "price_entry \<Rightarrow> bool" where
  "canonical item =
     (case strptime_ymd (date item) of
        None \<Rightarrow> False
      | Some d \<Rightarrow> strftime_ymd d = date item \<and> 366 \<le> toordinal d)"

definition date_of :: "price_entry \<Rightarrow> datetime" where
  "date_of item = the (strptime_ymd (date item))"

definition average_entry :: "string \<Rightarrow> int \<Rightarrow> price_entry" where
  "average_entry d p =
     \<lparr>date = d, average_price = p, property_type = ''Average'',
      percentage_annual_change = None\<rparr>"

definition average_dates_canonical :: "price_entry list \<Rightarrow> bool" where
  "average_dates_canonical pd =
     list_all canonical (filter (\<lambda>item. property_type item = ''Average'') pd)"

definition has_average :: "price_entry list \<Rightarrow> bool" where
  "has_average pd = (filter (\<lambda>item. property_type item = ''Average'') pd \<noteq> [])"

definition two_januaries :: "price_entry list" where
  "two_januaries = [average_entry ''2023-01-01'' 200000, average_entry ''2024-01-01'' 220000]"

section \<open>services/flood\_service.py: get\_flood\_data\<close>










text \<open>A station of the monitoring list. A measure is a dictionary or not; its
  \<open>latestReading\<close>, when the key is present, is a dictionary with \<open>value\<close> and
  \<open>dateTime\<close> or is not one, and then \<open>.get\<close> on it raises \<open>AttributeError\<close>.\<close>

datatype reading_field = ReadingNotDict | ReadingDict "rat option" "string option"

datatype measure = MeasureNotDict | Measure "reading_field option" "string option"



















section \<open>Properties of point\_in\_polygon\<close>

text \<open>C1: for the square ring [(0,0),(0,10),(10,10),(10,0)] the ray-casting routine
  classifies the point (5,5) as inside (it returns True) and the point (15,15) as
  outside (it returns False).\<close>

theorem point_in_polygon_square:
  "point_in_polygon (5, 5) square_ring = Inr True \<and>
   point_in_polygon (15, 15) square_ring = Inr False"
  by (simp add: point_in_polygon_def square_ring_def edge_step_def upt_rec Let_def)

section \<open>Properties of the flood-zone classification\<close>













section \<open>Properties of make\_request\<close>

lemmas loop_unfold = make_request_loop.simps
declare make_request_loop.simps [simp del]

lemma loop_exhausted:
  "\<not> int a < mr \<Longrightarrow>
   make_request_loop net mr rd a sl =
     \<lparr>result = Inr (ErrorDict ''Maximum retry attempts reached'' None),
      requests = a, sleeps = sl\<rparr>"
  by (subst loop_unfold) simp

lemma loop_continue:
  assumes "int a < mr" and "continues net mr rd a"
  shows "make_request_loop net mr rd a sl =
         make_request_loop net mr rd (Suc a) (sl @ [wait_after net rd a])"
  using assms
  by (subst loop_unfold)
     (auto simp: continues_def rate_limited_def wait_after_def
           split: outcome.splits sum.splits)

lemma loop_stop:
  assumes "int a < mr" and "\<not> continues net mr rd a"
  shows "result (make_request_loop net mr rd a sl) \<noteq>
           Inr (ErrorDict ''Maximum retry attempts reached'' None) \<and>
         requests (make_request_loop net mr rd a sl) = Suc a \<and>
         sleeps (make_request_loop net mr rd a sl) = sl"
  using assms
  by (subst (1 2 3) loop_unfold)
     (auto simp: continues_def rate_limited_def split: outcome.splits sum.splits)

lemma loop_prefix:
  assumes "\<forall>i. a \<le> i \<and> i < k \<longrightarrow> continues net mr rd i" and "a \<le> k" and "int k \<le> mr"
  shows "make_request_loop net mr rd a sl =
         make_request_loop net mr rd k (sl @ map (wait_after net rd) [a ..< k])"
  using assms
proof (induction "k - a" arbitrary: a sl)
  case 0
  then show ?case by simp
next
  case (Suc n)
  then have lt: "a < k" and c: "continues net mr rd a" by auto
  from lt Suc.prems have "int a < mr" by linarith
  then have "make_request_loop net mr rd a sl =
             make_request_loop net mr rd (Suc a) (sl @ [wait_after net rd a])"
    using c by (rule loop_continue)
  also have "\<dots> = make_request_loop net mr rd k
                 ((sl @ [wait_after net rd a]) @ map (wait_after net rd) [Suc a ..< k])"
    using Suc by (intro Suc.hyps(1)) auto
  also have "(sl @ [wait_after net rd a]) @ map (wait_after net rd) [Suc a ..< k] =
             sl @ map (wait_after net rd) [a ..< k]"
    using lt by (simp add: upt_conv_Cons)
  finally show ?case .
qed






text \<open>C9, as stated, fails: with \<open>max_retries = 2\<close>, a timeout on the first attempt and
  a 429 on the second, the loop completes and the fall-through error is returned
  although not every attempt received a 429.\<close>

theorem retry_exhaustion_counterexample:
  "timeout_then_limited 0 = Timeout \<and>
   make_request timeout_then_limited 2 1 =
     \<lparr>result = Inr (ErrorDict ''Maximum retry attempts reached'' None),
      requests = 2, sleeps = [1, 2]\<rparr>"
  by (simp add: make_request_def loop_unfold timeout_then_limited_def too_many_def
        retry_after_seconds_def)

text \<open>C9 (amended): \<open>make_request\<close> returns the fall-through error
  \<open>{'error': 'Maximum retry attempts reached'}\<close> exactly when its attempt loop completes
  without an early return, that is, if and only if \<open>max_retries <= 0\<close> (then no HTTP
  attempt is made at all) or every one of the \<open>max_retries\<close> attempts either received
  a 429 whose wait can be slept or, not being the last attempt, timed out (with a
  non-negative \<open>retry_delay\<close>); in particular, when every attempt receives a 429, the
  loop is exhausted after \<open>max_retries\<close> requests and yields this generic error rather
  than a 429 status error.\<close>

theorem retry_exhaustion:
  "(result (make_request net mr rd) = Inr (ErrorDict ''Maximum retry attempts reached'' None)
      \<longleftrightarrow> mr \<le> 0 \<or> (\<forall>i < nat mr. continues net mr rd i)) \<and>
   (mr \<le> 0 \<longrightarrow> requests (make_request net mr rd) = 0) \<and>
   (0 < mr \<and> (\<forall>i < nat mr. rate_limited (net i) rd) \<longrightarrow>
      make_request net mr rd =
        \<lparr>result = Inr (ErrorDict ''Maximum retry attempts reached'' None),
         requests = nat mr, sleeps = map (wait_after net rd) [0 ..< nat mr]\<rparr>)"
proof (intro conjI impI)
  show "result (make_request net mr rd) = Inr (ErrorDict ''Maximum retry attempts reached'' None)
      \<longleftrightarrow> mr \<le> 0 \<or> (\<forall>i < nat mr. continues net mr rd i)"
  proof (cases "mr \<le> 0")
    case True
    then show ?thesis by (simp add: make_request_def loop_exhausted)
  next
    case pos: False
    show ?thesis
    proof (cases "\<forall>i < nat mr. continues net mr rd i")
      case True
      then have "make_request net mr rd =
          make_request_loop net mr rd (nat mr) (map (wait_after net rd) [0 ..< nat mr])"
        unfolding make_request_def
        using loop_prefix [of 0 "nat mr" net mr rd "[]"] pos by simp
      with True show ?thesis by (simp add: loop_exhausted)
    next
      case False
      then obtain k where k: "k < nat mr" "\<not> continues net mr rd k"
        and least: "\<forall>i < k. continues net mr rd i"
        using exists_least_iff [of "\<lambda>i. i < nat mr \<and> \<not> continues net mr rd i"]
        by (metis (no_types, lifting) less_trans)
      from k have lt: "int k < mr" by linarith
      from least lt have "make_request net mr rd =
          make_request_loop net mr rd k (map (wait_after net rd) [0 ..< k])"
        unfolding make_request_def
        using loop_prefix [of 0 k net mr rd "[]"] by simp
      with loop_stop [OF lt k(2)] False pos show ?thesis by simp
    qed
  qed
next
  assume "mr \<le> 0"
  then show "requests (make_request net mr rd) = 0"
    by (simp add: make_request_def loop_exhausted)
next
  assume h: "0 < mr \<and> (\<forall>i < nat mr. rate_limited (net i) rd)"
  then have "\<forall>i. 0 \<le> i \<and> i < nat mr \<longrightarrow> continues net mr rd i"
    by (simp add: continues_def)
  then have "make_request net mr rd =
      make_request_loop net mr rd (nat mr) (map (wait_after net rd) [0 ..< nat mr])"
    unfolding make_request_def
    using loop_prefix [of 0 "nat mr" net mr rd "[]"] h by simp
  then show "make_request net mr rd =
        \<lparr>result = Inr (ErrorDict ''Maximum retry attempts reached'' None),
         requests = nat mr, sleeps = map (wait_after net rd) [0 ..< nat mr]\<rparr>"
    by (simp add: loop_exhausted)
qed

theorem retry_exhaustion_witness:
  "make_request always_limited 3 1 =
     \<lparr>result = Inr (ErrorDict ''Maximum retry attempts reached'' None),
      requests = 3, sleeps = [2, 2, 2]\<rparr>"
proof -
  have pre: "(0::int) < 3 \<and> (\<forall>i < nat 3. rate_limited (always_limited i) 1)"
    by (simp add: rate_limited_def always_limited_def too_many_def retry_after_seconds_def)
  have w: "map (wait_after always_limited 1) [0 ..< nat 3] = [2, 2, 2]"
    by (simp add: wait_after_def always_limited_def too_many_def retry_after_seconds_def
          upt_rec)
  from retry_exhaustion [of always_limited 3 1] pre
  have "make_request always_limited 3 1 =
      \<lparr>result = Inr (ErrorDict ''Maximum retry attempts reached'' None),
       requests = nat 3, sleeps = map (wait_after always_limited 1) [0 ..< nat 3]\<rparr>"
    by blast
  with w show ?thesis by simp
qed

section \<open>Properties of the monthly crime queries\<close>

lemmas str_nat_unfold = str_nat.simps
declare str_nat.simps [simp del]

lemma str_nat_1: "n < 10 \<Longrightarrow> str_nat n = [digit_char n]"
  by (simp add: str_nat_unfold)

lemma digit_char_mod: "digit_char (n mod 10) = digit_char n"
  by (simp add: digit_char_def)

lemma str_nat_2: "10 \<le> n \<Longrightarrow> n < 100 \<Longrightarrow> str_nat n = [digit_char (n div 10), digit_char n]"
  by (subst str_nat_unfold) (simp add: digit_char_mod str_nat_1)

lemma str_nat_3:
  "100 \<le> n \<Longrightarrow> n < 1000 \<Longrightarrow>
   str_nat n = [digit_char (n div 100), digit_char (n div 10), digit_char n]"
  by (subst str_nat_unfold) (simp add: digit_char_mod str_nat_2 div_mult2_eq [symmetric])

lemma str_nat_4:
  "1000 \<le> n \<Longrightarrow> n < 10000 \<Longrightarrow>
   str_nat n = [digit_char (n div 1000), digit_char (n div 100), digit_char (n div 10),
                digit_char n]"
  by (subst str_nat_unfold) (simp add: digit_char_mod str_nat_3 div_mult2_eq [symmetric])

lemma fmt_02d_month:
  assumes "1 \<le> m" and "m \<le> 12"
  shows "fmt_02d m = [digit_char (nat m div 10), digit_char (nat m)]"
proof (cases "m < 10")
  case True
  with assms have "nat m < 10" and "nat m div 10 = 0" by auto
  with True assms show ?thesis
    by (simp add: fmt_02d_def str_int_def str_nat_1 digit_char_def)
next
  case False
  with assms have "10 \<le> nat m" and "nat m < 100" by auto
  with False assms show ?thesis
    by (simp add: fmt_02d_def str_int_def str_nat_2)
qed

lemma div_mod_offset:
  fixes r q :: int
  assumes "0 \<le> r" and "r < 12"
  shows "(r + q * 12) div 12 = q" and "(r + q * 12) mod 12 = r"
  using assms by simp_all

lemma months_back_wrapped:
  assumes "1 \<le> m" and "m \<le> 12" and "i < 12" and "m - int i \<le> 0"
  shows "months_back y m i = (y - 1, m - int i + 12)"
proof -
  have k: "y * 12 + (m - 1) - int i = (m - int i + 11) + (y - 1) * 12"
    by (simp add: algebra_simps)
  have r: "0 \<le> m - int i + 11" "m - int i + 11 < 12"
    using assms by linarith+
  show ?thesis
    unfolding months_back_def Let_def k div_mod_offset [OF r] by simp
qed

lemma months_back_same_year:
  assumes "1 \<le> m" and "m \<le> 12" and "i < 12" and "\<not> m - int i \<le> 0"
  shows "months_back y m i = (y, m - int i)"
proof -
  have k: "y * 12 + (m - 1) - int i = (m - int i - 1) + y * 12"
    by (simp add: algebra_simps)
  have r: "0 \<le> m - int i - 1" "m - int i - 1 < 12"
    using assms by linarith+
  show ?thesis
    unfolding months_back_def Let_def k div_mod_offset [OF r] by simp
qed

lemma wrap_around_month:
  assumes "1 \<le> m" and "m \<le> 12" and "i < 12"
  shows "wrap_around (m - int i) y = (snd (months_back y m i), fst (months_back y m i))"
proof (cases "m - int i \<le> 0")
  case True
  then have "wrap_around (m - int i) y = (m - int i + 12, y - 1)"
    using assms by (subst wrap_around.simps, subst wrap_around.simps) simp
  with months_back_wrapped [OF assms True] show ?thesis by simp
next
  case False
  then have "wrap_around (m - int i) y = (m - int i, y)"
    by (subst wrap_around.simps) simp
  with months_back_same_year [OF assms False] show ?thesis by simp
qed

lemma months_back_range:
  assumes "1 \<le> m" and "m \<le> 12" and "i < 12"
  shows "1 \<le> snd (months_back y m i) \<and> snd (months_back y m i) \<le> 12 \<and>
         y - 1 \<le> fst (months_back y m i) \<and> fst (months_back y m i) \<le> y"
proof (cases "m - int i \<le> 0")
  case True
  with months_back_wrapped [OF assms True] assms show ?thesis by simp
next
  case False
  with months_back_same_year [OF assms False] assms show ?thesis by simp
qed

lemma month_date_str_eq:
  assumes "1 \<le> month today" and "month today \<le> 12"
    and "1001 \<le> year today" and "year today \<le> 9999" and "i < 12"
  shows "month_date_str today i = yyyy_mm (months_back (year today) (month today) i)"
proof -
  obtain y' m' where ym: "months_back (year today) (month today) i = (y', m')"
    by (cases "months_back (year today) (month today) i")
  with months_back_range [OF assms(1,2,5), of "year today"] assms
  have m: "1 \<le> m'" "m' \<le> 12" and y: "1000 \<le> y'" "y' \<le> 9999" by auto
  from y have "str_int y' =
      [digit_char (nat y' div 1000), digit_char (nat y' div 100), digit_char (nat y' div 10),
       digit_char (nat y')]"
    by (simp add: str_int_def str_nat_4)
  with fmt_02d_month [OF m] wrap_around_month [OF assms(1,2,5), of "year today"] ym
  show ?thesis
    by (simp add: month_date_str_def yyyy_mm_def)
qed

lemma digit_char_is_digit: "is_digit (digit_char n)"
  unfolding is_digit_def digit_char_def by (rule nth_mem) simp

lemma yyyy_mm_form:
  assumes "1 \<le> m" and "m \<le> 12"
  shows "is_yyyy_mm (yyyy_mm (y, m))"
proof -
  from assms have "m = 1 \<or> m = 2 \<or> m = 3 \<or> m = 4 \<or> m = 5 \<or> m = 6 \<or> m = 7 \<or> m = 8 \<or>
      m = 9 \<or> m = 10 \<or> m = 11 \<or> m = 12"
    by arith
  then have "[digit_char (nat m div 10), digit_char (nat m)] \<in>
     set [''01'', ''02'', ''03'', ''04'', ''05'', ''06'',
          ''07'', ''08'', ''09'', ''10'', ''11'', ''12'']"
    by (elim disjE) (simp_all add: digit_char_def)
  then show ?thesis
    by (simp add: is_yyyy_mm_def yyyy_mm_def digit_char_is_digit)
qed


lemma for_date_request:
  "snd (get_crime_data_for_date P lat lon r d) =
     \<lparr>req_lat = lat, req_lng = lon, req_date = d,
      req_radius = Some (min (r * (621371 / 1000000)) 1)\<rparr>"
  by (simp add: get_crime_data_for_date_def Let_def)

lemma crime_fold:
  "fold (crime_month_step P lat lon r today) idxs (acc, issued) =
     (acc @ concat (map (\<lambda>i. crimes_of (fst (get_crime_data_for_date P lat lon r
                                               (month_date_str today i)))) idxs),
      issued @ map (\<lambda>i. snd (get_crime_data_for_date P lat lon r (month_date_str today i)))
                 idxs)"
proof (induction idxs arbitrary: acc issued)
  case Nil
  show ?case by simp
next
  case (Cons i idxs)
  let ?res = "get_crime_data_for_date P lat lon r (month_date_str today i)"
  have step: "crime_month_step P lat lon r today i (acc, issued) =
      (acc @ crimes_of (fst ?res), issued @ [snd ?res])"
    by (cases ?res) (simp add: crime_month_step_def crimes_of_def split: month_result.splits)
  show ?case by (simp add: step Cons.IH)
qed

lemma monthly_fold:
  "fold (monthly_step P lat lon r today) idxs (m, issued) =
     (\<lambda>k. if k \<in> month_date_str today ` set idxs
           then (case listed (fst (get_crime_data_for_date P lat lon r k)) of
                   Some cs \<Rightarrow> Some cs
                 | None \<Rightarrow> m k)
           else m k,
      issued @ map (\<lambda>i. snd (get_crime_data_for_date P lat lon r (month_date_str today i)))
                 idxs)"
proof (induction idxs arbitrary: m issued)
  case Nil
  show ?case by simp
next
  case (Cons i idxs)
  let ?res = "get_crime_data_for_date P lat lon r (month_date_str today i)"
  have step: "monthly_step P lat lon r today i (m, issued) =
      (case listed (fst ?res) of
         Some cs \<Rightarrow> m(month_date_str today i \<mapsto> cs)
       | None \<Rightarrow> m,
       issued @ [snd ?res])"
    by (cases ?res) (simp add: monthly_step_def listed_def split: month_result.splits)
  show ?case
    unfolding fold_simps step Cons.IH
    by (auto simp: fun_eq_iff split: option.splits)
qed

lemma month_strs_recent:
  assumes "1 \<le> month today" and "month today \<le> 12"
    and "1001 \<le> year today" and "year today \<le> 9999"
  shows "map (month_date_str today) [0 ..< 12] = recent_months today"
  unfolding recent_months_def
  by (rule map_cong [OF refl]) (simp add: month_date_str_eq [OF assms])

lemma recent_months_form:
  assumes "1 \<le> month today" and "month today \<le> 12"
  shows "\<forall>k \<in> set (recent_months today). is_yyyy_mm k"
proof
  fix k assume "k \<in> set (recent_months today)"
  then obtain i where i: "i < 12"
    and k: "k = yyyy_mm (months_back (year today) (month today) i)"
    by (auto simp: recent_months_def)
  obtain y' m' where ym: "months_back (year today) (month today) i = (y', m')"
    by (cases "months_back (year today) (month today) i")
  with months_back_range [OF assms i, of "year today"] have "1 \<le> m'" "m' \<le> 12" by auto
  then show "is_yyyy_mm k" unfolding k ym by (rule yyyy_mm_form)
qed

text \<open>C6: \<open>get_crime_data\<close> called without a date and \<open>get_last_year_monthly_data\<close> each
  issue exactly 12 monthly requests, for the 12 most recent calendar months ending at
  the current month, each written \<open>YYYY-MM\<close> with a zero-padded month and the year
  rolled over (from 2024-03-15: 2024-03 down through 2023-04); a month whose request
  returned an error is left out of the combined list, respectively out of the
  month-keyed mapping, and is neither retried nor reported. The current date is one the
  system clock can give: a month from 1 to 12 and a four-digit year after 1000.\<close>

theorem twelve_recent_months:
  assumes "1 \<le> month today" and "month today \<le> 12"
    and "1001 \<le> year today" and "year today \<le> 9999"
  shows "map req_date (snd (get_crime_data P lat lon r None today)) = recent_months today \<and>
    map req_date (snd (get_last_year_monthly_data P lat lon r today)) = recent_months today \<and>
    length (recent_months today) = 12 \<and>
    (\<forall>k \<in> set (recent_months today). is_yyyy_mm k) \<and>
    fst (get_crime_data P lat lon r None today) =
      CrimeList (concat (map (\<lambda>d. crimes_of (fst (get_crime_data_for_date P lat lon r d)))
                           (recent_months today))) \<and>
    (\<forall>d. fst (get_last_year_monthly_data P lat lon r today) d =
          (if d \<in> set (recent_months today)
           then listed (fst (get_crime_data_for_date P lat lon r d)) else None)) \<and>
    (year today = 2024 \<and> month today = 3 \<longrightarrow>
       recent_months today =
         [''2024-03'', ''2024-02'', ''2024-01'', ''2023-12'', ''2023-11'', ''2023-10'',
          ''2023-09'', ''2023-08'', ''2023-07'', ''2023-06'', ''2023-05'', ''2023-04''])"
proof -
  note ms = month_strs_recent [OF assms]
  have dates: "map (\<lambda>i. req_date (snd (get_crime_data_for_date P lat lon r
                 (month_date_str today i)))) [0 ..< 12] = recent_months today"
    unfolding for_date_request using ms by simp
  have 1: "map req_date (snd (get_crime_data P lat lon r None today)) = recent_months today"
    using dates by (simp add: get_crime_data_def crime_fold o_def)
  have 2: "map req_date (snd (get_last_year_monthly_data P lat lon r today)) =
      recent_months today"
    using dates by (simp add: get_last_year_monthly_data_def monthly_fold o_def)
  have 3: "length (recent_months today) = 12"
    by (simp add: recent_months_def)
  have "map (\<lambda>i. crimes_of (fst (get_crime_data_for_date P lat lon r (month_date_str today i))))
          [0 ..< 12] =
        map (\<lambda>d. crimes_of (fst (get_crime_data_for_date P lat lon r d)))
          (map (month_date_str today) [0 ..< 12])"
    by (simp add: o_def)
  then have 5: "fst (get_crime_data P lat lon r None today) =
      CrimeList (concat (map (\<lambda>d. crimes_of (fst (get_crime_data_for_date P lat lon r d)))
                           (recent_months today)))"
    unfolding ms by (simp add: get_crime_data_def crime_fold)
  have img: "month_date_str today ` set [0 ..< 12] = set (recent_months today)"
    using ms by (metis set_map)
  have 6: "\<forall>d. fst (get_last_year_monthly_data P lat lon r today) d =
          (if d \<in> set (recent_months today)
           then listed (fst (get_crime_data_for_date P lat lon r d)) else None)"
    unfolding get_last_year_monthly_data_def monthly_fold img
    by (simp split: option.splits)
  have 7: "year today = 2024 \<and> month today = 3 \<longrightarrow>
       recent_months today =
         [''2024-03'', ''2024-02'', ''2024-01'', ''2023-12'', ''2023-11'', ''2023-10'',
          ''2023-09'', ''2023-08'', ''2023-07'', ''2023-06'', ''2023-05'', ''2023-04'']"
    by (simp add: recent_months_def upt_rec months_back_def yyyy_mm_def digit_char_def)
  from 1 2 3 recent_months_form [OF assms(1,2)] 5 6 7 show ?thesis by blast
qed

theorem twelve_recent_months_witness:
  "map req_date (snd (get_crime_data sparse_provider 51 0 1 None march_2024)) =
     [''2024-03'', ''2024-02'', ''2024-01'', ''2023-12'', ''2023-11'', ''2023-10'',
      ''2023-09'', ''2023-08'', ''2023-07'', ''2023-06'', ''2023-05'', ''2023-04''] \<and>
   fst (get_crime_data sparse_provider 51 0 1 None march_2024) =
     CrimeList [''burglary'', ''robbery'', ''drugs'']"
proof -
  have pre: "1 \<le> month march_2024" "month march_2024 \<le> 12"
    "1001 \<le> year march_2024" "year march_2024 \<le> 9999"
    by (simp_all add: march_2024_def)
  have ym: "year march_2024 = 2024 \<and> month march_2024 = 3"
    by (simp add: march_2024_def)
  note t = twelve_recent_months [OF pre, of sparse_provider 51 0 1]
  from t ym have months: "recent_months march_2024 =
     [''2024-03'', ''2024-02'', ''2024-01'', ''2023-12'', ''2023-11'', ''2023-10'',
      ''2023-09'', ''2023-08'', ''2023-07'', ''2023-06'', ''2023-05'', ''2023-04'']"
    by blast
  have "concat (map (\<lambda>d. crimes_of (fst (get_crime_data_for_date sparse_provider 51 0 1 d)))
      [''2024-03'', ''2024-02'', ''2024-01'', ''2023-12'', ''2023-11'', ''2023-10'',
       ''2023-09'', ''2023-08'', ''2023-07'', ''2023-06'', ''2023-05'', ''2023-04'']) =
      [''burglary'', ''robbery'', ''drugs'']"
    by (simp add: get_crime_data_for_date_def sparse_provider_def crimes_of_def Let_def)
  with t months show ?thesis by simp
qed

text \<open>C10: for every current date and every provider behaviour, the mapping returned by
  \<open>get_last_year_monthly_data\<close> has at most 12 keys, every key has the form \<open>YYYY-MM\<close>
  with a zero-padded month between 01 and 12, each key's value is exactly the list
  the provider answered for that month, and an errored month has no key. The current
  date is one the system clock can give: a month from 1 to 12 and a four-digit year
  after 1000.\<close>

theorem monthly_mapping_keys:
  assumes "1 \<le> month today" and "month today \<le> 12"
    and "1001 \<le> year today" and "year today \<le> 9999"
  shows "finite (dom (fst (get_last_year_monthly_data P lat lon r today))) \<and>
    card (dom (fst (get_last_year_monthly_data P lat lon r today))) \<le> 12 \<and>
    (\<forall>k \<in> dom (fst (get_last_year_monthly_data P lat lon r today)). is_yyyy_mm k) \<and>
    (\<forall>k cs. fst (get_last_year_monthly_data P lat lon r today) k = Some cs \<longrightarrow>
       fst (get_crime_data_for_date P lat lon r k) = CrimeList cs) \<and>
    (\<forall>k e d. fst (get_crime_data_for_date P lat lon r k) = CrimeError e d \<longrightarrow>
       fst (get_last_year_monthly_data P lat lon r today) k = None)"
proof -
  let ?M = "fst (get_last_year_monthly_data P lat lon r today)"
  have img: "month_date_str today ` set [0 ..< 12] = set (recent_months today)"
    using month_strs_recent [OF assms] by (metis set_map)
  have M: "?M k = (if k \<in> set (recent_months today)
           then listed (fst (get_crime_data_for_date P lat lon r k)) else None)" for k
    unfolding get_last_year_monthly_data_def monthly_fold img
    by (simp split: option.splits)
  have sub: "dom ?M \<subseteq> set (recent_months today)"
    by (auto simp: M dom_def split: if_splits)
  then have fin: "finite (dom ?M)" by (rule finite_subset) simp
  have "card (dom ?M) \<le> card (set (recent_months today))"
    using sub by (intro card_mono) simp_all
  also have "\<dots> \<le> length (recent_months today)" by (rule card_length)
  also have "\<dots> = 12" by (simp add: recent_months_def)
  finally have card: "card (dom ?M) \<le> 12" .
  have form: "\<forall>k \<in> dom ?M. is_yyyy_mm k"
    using sub recent_months_form [OF assms(1,2)] by blast
  have val: "\<forall>k cs. ?M k = Some cs \<longrightarrow> fst (get_crime_data_for_date P lat lon r k) = CrimeList cs"
    by (auto simp: M listed_def split: if_splits month_result.splits)
  have err: "\<forall>k e d. fst (get_crime_data_for_date P lat lon r k) = CrimeError e d \<longrightarrow> ?M k = None"
    by (auto simp: M listed_def)
  from fin card form val err show ?thesis by blast
qed

theorem monthly_mapping_keys_witness:
  "card (dom (fst (get_last_year_monthly_data sparse_provider 51 0 1 march_2024))) \<le> 12 \<and>
   fst (get_last_year_monthly_data sparse_provider 51 0 1 march_2024) ''2023-12'' = None \<and>
   fst (get_last_year_monthly_data sparse_provider 51 0 1 march_2024) ''2024-01'' = None"
proof -
  have pre: "1 \<le> month march_2024" "month march_2024 \<le> 12"
    "1001 \<le> year march_2024" "year march_2024 \<le> 9999"
    by (simp_all add: march_2024_def)
  have e1: "fst (get_crime_data_for_date sparse_provider 51 0 1 ''2023-12'') =
      CrimeError ''Failed to fetch crime data: connection reset'' None"
    by (simp add: get_crime_data_for_date_def sparse_provider_def Let_def)
  have e2: "fst (get_crime_data_for_date sparse_provider 51 0 1 ''2024-01'') =
      CrimeError ''Request failed with status code: 404'' (Some ''No details available'')"
    by (simp add: get_crime_data_for_date_def sparse_provider_def Let_def str_int_def
          str_nat.simps digit_char_def)
  from monthly_mapping_keys [OF pre, of sparse_provider 51 0 1] e1 e2
  show ?thesis by blast
qed

section \<open>Properties of get\_location\_data\<close>



section \<open>Properties of the price series\<close>

lemma add_channel_rule:
  "add_channel pd d t price pct =
     (if 0 < price \<and>
         \<not> (\<exists>item \<in> set pd. date item = d \<and> property_type item = t \<and>
                             average_price item \<noteq> py_round price)
      then pd @ [\<lparr>date = d, average_price = py_round price, property_type = t,
                  percentage_annual_change = map_option py_round2 pct\<rparr>]
      else pd)"
proof (cases "find (\<lambda>item. date item = d \<and> property_type item = t \<and>
                           average_price item \<noteq> py_round price) pd")
  case None
  then have "\<not> (\<exists>item \<in> set pd. date item = d \<and> property_type item = t \<and>
                             average_price item \<noteq> py_round price)"
    by (simp add: find_None_iff)
  with None show ?thesis by (simp add: add_channel_def)
next
  case (Some item)
  then have "item \<in> set pd" and "date item = d \<and> property_type item = t \<and>
                             average_price item \<noteq> py_round price"
    by (auto simp: find_Some_iff)
  then have "\<exists>item \<in> set pd. date item = d \<and> property_type item = t \<and>
                             average_price item \<noteq> py_round price"
    by blast
  with Some show ?thesis by (simp add: add_channel_def)
qed

lemma py_round_int: "py_round (of_int n) = n"
  by (simp add: py_round_def)

lemma fmt_jan_2024: "formatted_date_of ''2024-01'' = ''2024-01-01''"
  by (simp add: formatted_date_of_def strptime_ym_def all_digits_def is_digit_def
        int_of_digits_def digit_val_def month_token_def strftime_ymd_def fmt_04d_def
        fmt_02d_def str_int_def str_nat_unfold digit_char_def)

lemma duplicate_kept: "build_price_data [detached_row ''2024-01'' 300000, detached_row ''2024-01'' 300000] =
       [detached_entry 300000, detached_entry 300000]"
proof -
  have r: "py_round 300000 = 300000" using py_round_int [of 300000] by simp
  show ?thesis
    by (simp add: build_price_data_def process_row_def detached_row_def blank_row_def
        fmt_jan_2024 add_channel_def price_of_def detached_entry_def r)
qed

lemma different_price_dropped: "build_price_data [detached_row ''2024-01'' 300000, detached_row ''2024-01'' 300001] =
       [detached_entry 300000]"
proof -
  have r: "py_round 300000 = 300000" "py_round 300001 = 300001"
    using py_round_int [of 300000] py_round_int [of 300001] by simp_all
  show ?thesis
    by (simp add: build_price_data_def process_row_def detached_row_def blank_row_def
        fmt_jan_2024 add_channel_def price_of_def detached_entry_def r)
qed

text \<open>C4: in \<open>get_uk_house_price_index\<close> a candidate row (a date, a property type and a
  price above zero) is appended to the accumulated series if and only if no entry
  already accumulated with the same date and the same property type has a rounded
  price different from the candidate's rounded price. So a literal duplicate, a second
  (2024-01, Detached, 300000), is appended again, while (2024-01, Detached, 300001)
  after 300000 falls under the same rule, which leaves it out.\<close>

theorem dedup_rule:
  "add_channel pd d t price pct =
     (if 0 < price \<and>
         \<not> (\<exists>item \<in> set pd. date item = d \<and> property_type item = t \<and>
                             average_price item \<noteq> py_round price)
      then pd @ [\<lparr>date = d, average_price = py_round price, property_type = t,
                  percentage_annual_change = map_option py_round2 pct\<rparr>]
      else pd) \<and>
   build_price_data [detached_row ''2024-01'' 300000, detached_row ''2024-01'' 300000] =
     [detached_entry 300000, detached_entry 300000] \<and>
   build_price_data [detached_row ''2024-01'' 300000, detached_row ''2024-01'' 300001] =
     [detached_entry 300000]"
  using add_channel_rule [of pd d t price pct] duplicate_kept different_price_dropped
  by simp

lemma first_best_mem: "first_best better b xs \<in> set (b # xs)"
  by (induction xs arbitrary: b) auto

lemma first_best_max:
  "\<forall>x \<in> set (b # xs). k x \<le> (k (first_best (\<lambda>a b. k a > k b) b xs) :: int)"
proof (induction xs arbitrary: b)
  case Nil
  show ?case by simp
next
  case (Cons y ys)
  let ?b = "if k y > k b then y else b"
  have IH: "\<forall>x \<in> set (?b # ys). k x \<le> k (first_best (\<lambda>a b. k a > k b) ?b ys)"
    by (rule Cons.IH)
  then have "k ?b \<le> k (first_best (\<lambda>a b. k a > k b) ?b ys)" by simp
  moreover have "k b \<le> k ?b" and "k y \<le> k ?b" by auto
  ultimately have "k b \<le> k (first_best (\<lambda>a b. k a > k b) ?b ys)"
    and "k y \<le> k (first_best (\<lambda>a b. k a > k b) ?b ys)"
    by linarith+
  with IH show ?case by simp
qed

lemma first_best_min:
  "\<forall>x \<in> set (b # xs). (k (first_best (\<lambda>a b. k a < k b) b xs) :: int) \<le> k x"
  using first_best_max [of b xs "\<lambda>a. - k a"] by simp

lemma parse_dates_ok:
  "\<forall>item \<in> set xs. strptime_ymd (date item) \<noteq> None \<Longrightarrow>
   parse_dates xs = Inr (map date_of xs)"
  by (induction xs) (auto simp: date_of_def)

lemma average_at_found:
  assumes "e \<in> set pd" and "property_type e = ''Average''" and "date e = s"
  shows "\<exists>item \<in> set pd. property_type item = ''Average'' \<and> date item = s \<and>
           average_at pd s = average_price item"
proof (cases "find (\<lambda>item. date item = s \<and> property_type item = ''Average'') pd")
  case None
  with assms show ?thesis by (auto simp: find_None_iff)
next
  case (Some item)
  then have "item \<in> set pd" and "date item = s" and "property_type item = ''Average''"
    by (auto simp: find_Some_iff)
  with Some show ?thesis by (auto simp: average_at_def)
qed


lemma canonical_dated:
  assumes "canonical item"
  shows "strptime_ymd (date item) = Some (date_of item)"
    and "strftime_ymd (date_of item) = date item"
    and "366 \<le> toordinal (date_of item)"
  using assms by (auto simp: canonical_def date_of_def split: option.splits)

lemma summarise_yearly_change:
  assumes can: "\<forall>item \<in> set pd. property_type item = ''Average'' \<longrightarrow> canonical item"
    and ex: "\<exists>item \<in> set pd. property_type item = ''Average''"
  shows "\<exists>latest closest.
     latest \<in> set pd \<and> closest \<in> set pd \<and>
     property_type latest = ''Average'' \<and> property_type closest = ''Average'' \<and>
     (\<forall>item \<in> set pd. property_type item = ''Average'' \<longrightarrow>
        toordinal (date_of item) \<le> toordinal (date_of latest) \<and>
        \<bar>toordinal (date_of closest) - (toordinal (date_of latest) - 365)\<bar>
          \<le> \<bar>toordinal (date_of item) - (toordinal (date_of latest) - 365)\<bar>) \<and>
     (\<exists>s. summarise pd = Inr s \<and>
        yearly_change_percentage s =
          (if average_price closest > 0
           then Some (rat_of_int (average_price latest - average_price closest) /
                      rat_of_int (average_price closest) * 100)
           else None) \<and>
        current_average_price s =
          (if average_price latest > 0 then Some (average_price latest) else None))"
proof -
  define avg where "avg = filter (\<lambda>item. property_type item = ''Average'') pd"
  have avg_set: "set avg = {item \<in> set pd. property_type item = ''Average''}"
    by (auto simp: avg_def)
  from ex obtain a0 rest where avg_cons: "avg = a0 # rest"
    by (cases avg) (auto simp: avg_def filter_empty_conv)
  have parsed: "parse_dates avg = Inr (map date_of avg)"
    by (rule parse_dates_ok) (use can avg_set canonical_dated(1) in fastforce)
  define recent where
    "recent = first_best (\<lambda>a b. toordinal a > toordinal b) (date_of a0) (map date_of rest)"
  have mx: "py_max (map date_of avg) = Inr recent"
    by (simp add: py_max_def avg_cons recent_def)
  have "recent \<in> set (map date_of avg)"
    unfolding recent_def avg_cons using first_best_mem [of _ "date_of a0" "map date_of rest"]
    by simp
  then obtain e where e: "e \<in> set pd" "property_type e = ''Average''" "date_of e = recent"
    using avg_set by auto
  have recent_max: "\<forall>item \<in> set avg. toordinal (date_of item) \<le> toordinal recent"
    unfolding recent_def avg_cons
    using first_best_max [of "date_of a0" "map date_of rest" toordinal] by simp
  from e can have ce: "canonical e" by blast
  from canonical_dated [OF ce] e(3)
  have e_str: "date e = strftime_ymd recent" and far: "366 \<le> toordinal recent" by simp_all
  from average_at_found [OF e(1,2) e_str]
  obtain latest where latest: "latest \<in> set pd" "property_type latest = ''Average''"
      "date latest = strftime_ymd recent"
      "average_at pd (strftime_ymd recent) = average_price latest"
    by blast
  from latest(3) e_str e(3) have latest_date: "date_of latest = recent"
    by (simp add: date_of_def)
  define key where "key = (\<lambda>d. \<bar>toordinal d - (toordinal recent - 365)\<bar>)"
  define cl where
    "cl = first_best (\<lambda>a b. key a < key b) (date_of a0) (map date_of rest)"
  have mn: "py_min_key key (map date_of avg) = Inr cl"
    by (simp add: py_min_key_def avg_cons cl_def)
  have "cl \<in> set (map date_of avg)"
    unfolding cl_def avg_cons using first_best_mem [of _ "date_of a0" "map date_of rest"]
    by simp
  then obtain e' where e': "e' \<in> set pd" "property_type e' = ''Average''" "date_of e' = cl"
    using avg_set by auto
  have cl_min: "\<forall>item \<in> set avg. key cl \<le> key (date_of item)"
    unfolding cl_def avg_cons
    using first_best_min [of "date_of a0" "map date_of rest" key] by simp
  from e' can have ce': "canonical e'" by blast
  from canonical_dated [OF ce'] e'(3) have e'_str: "date e' = strftime_ymd cl" by simp
  from average_at_found [OF e'(1,2) e'_str]
  obtain closest where closest: "closest \<in> set pd" "property_type closest = ''Average''"
      "date closest = strftime_ymd cl"
      "average_at pd (strftime_ymd cl) = average_price closest"
    by blast
  from closest(3) e'_str e'(3) have closest_date: "date_of closest = cl"
    by (simp add: date_of_def)
  have order: "\<forall>item \<in> set pd. property_type item = ''Average'' \<longrightarrow>
        toordinal (date_of item) \<le> toordinal (date_of latest) \<and>
        \<bar>toordinal (date_of closest) - (toordinal (date_of latest) - 365)\<bar>
          \<le> \<bar>toordinal (date_of item) - (toordinal (date_of latest) - 365)\<bar>"
    using recent_max cl_min avg_set unfolding latest_date closest_date key_def by simp
  have run: "summarise pd =
      Inr \<lparr>current_average_price =
             (if average_price latest > 0 then Some (average_price latest) else None),
           yearly_change_percentage =
             (if average_price closest > 0
              then Some (rat_of_int (average_price latest - average_price closest) /
                         rat_of_int (average_price closest) * 100)
              else None),
           price_data_of = pd\<rparr>"
    using far
    by (simp add: summarise_def avg_def [symmetric] parsed mx key_def [symmetric] mn
          latest(4) closest(4) Let_def)
  from latest(1,2) closest(1,2) order run show ?thesis by auto
qed

lemmas date_text_defs =
  strptime_ymd_def strptime_ym_def all_digits_def is_digit_def int_of_digits_def digit_val_def
  month_token_def day_token_def day_value_def days_in_month_def is_leap_def
  strftime_ymd_def fmt_04d_def fmt_02d_def str_int_def str_nat_unfold digit_char_def

lemma jan_2023:
  "strptime_ymd ''2023-01-01'' = Some \<lparr>year = 2023, month = 1, day = 1\<rparr>"
  "strftime_ymd \<lparr>year = 2023, month = 1, day = 1\<rparr> = ''2023-01-01''"
  "toordinal \<lparr>year = 2023, month = 1, day = 1\<rparr> = 738521"
  "formatted_date_of ''2023-01'' = ''2023-01-01''"
  by (simp_all add: date_text_defs toordinal_def days_before_year_def days_before_month_def
        formatted_date_of_def)

lemma jan_2024:
  "strptime_ymd ''2024-01-01'' = Some \<lparr>year = 2024, month = 1, day = 1\<rparr>"
  "strftime_ymd \<lparr>year = 2024, month = 1, day = 1\<rparr> = ''2024-01-01''"
  "toordinal \<lparr>year = 2024, month = 1, day = 1\<rparr> = 738886"
  "formatted_date_of ''2024-01'' = ''2024-01-01''"
  by (simp_all add: date_text_defs toordinal_def days_before_year_def days_before_month_def
        formatted_date_of_def)

lemma unpadded_2024:
  "strptime_ymd ''2024-1-1'' = Some \<lparr>year = 2024, month = 1, day = 1\<rparr>"
  by (simp add: date_text_defs)

lemma py_round_small: "py_round (2 / 5) = 0"
proof -
  have "\<lfloor>(2::rat) / 5\<rfloor> = 0" by (rule floor_unique) simp_all
  then show ?thesis by (simp add: py_round_def)
qed

lemma summarise_two_januaries:
  "summarise two_januaries =
    Inr \<lparr>current_average_price = Some 220000, yearly_change_percentage = Some 10,
         price_data_of = two_januaries\<rparr>"
  by (simp add: summarise_def two_januaries_def average_entry_def jan_2023 jan_2024
        py_max_def py_min_key_def average_at_def Let_def)

lemma build_two_januaries:
  "build_price_data [average_row ''2023-01'' 200000, average_row ''2024-01'' 220000] =
     two_januaries"
proof -
  have r: "py_round 200000 = 200000" "py_round 220000 = 220000"
    using py_round_int [of 200000] py_round_int [of 220000] by simp_all
  show ?thesis
    by (simp add: build_price_data_def process_row_def average_row_def blank_row_def
        jan_2023 jan_2024 add_channel_def price_of_def two_januaries_def average_entry_def r)
qed

lemma ten_percent:
  "get_uk_house_price_index
      (Bindings [average_row ''2023-01'' 200000, average_row ''2024-01'' 220000]) =
    Inr \<lparr>current_average_price = Some 220000, yearly_change_percentage = Some 10,
         price_data_of = two_januaries\<rparr>"
  unfolding get_uk_house_price_index_def
  by (simp add: build_two_januaries summarise_two_januaries) (simp add: two_januaries_def)

lemma zero_price_absent:
  "get_uk_house_price_index
      (Bindings [average_row ''2023-01'' (2 / 5), average_row ''2024-01'' 220000]) =
    Inr \<lparr>current_average_price = Some 220000, yearly_change_percentage = None,
         price_data_of = [average_entry ''2023-01-01'' 0,
                          average_entry ''2024-01-01'' 220000]\<rparr>"
proof -
  have r: "py_round 220000 = 220000"
    using py_round_int [of 220000] by simp
  have b: "build_price_data [average_row ''2023-01'' (2 / 5), average_row ''2024-01'' 220000] =
      [average_entry ''2023-01-01'' 0, average_entry ''2024-01-01'' 220000]"
    by (simp add: build_price_data_def process_row_def average_row_def blank_row_def
        jan_2023 jan_2024 add_channel_def price_of_def average_entry_def r py_round_small)
  have s: "summarise [average_entry ''2023-01-01'' 0, average_entry ''2024-01-01'' 220000] =
    Inr \<lparr>current_average_price = Some 220000, yearly_change_percentage = None,
         price_data_of = [average_entry ''2023-01-01'' 0,
                          average_entry ''2024-01-01'' 220000]\<rparr>"
    by (simp add: summarise_def average_entry_def jan_2023 jan_2024
        py_max_def py_min_key_def average_at_def Let_def)
  show ?thesis
    unfolding get_uk_house_price_index_def by (simp add: b s)
qed

lemma missing_price_absent:
  "summarise [average_entry ''2024-1-1'' 220000] =
    Inr \<lparr>current_average_price = None, yearly_change_percentage = None,
         price_data_of = [average_entry ''2024-1-1'' 220000]\<rparr>"
  by (simp add: summarise_def average_entry_def unpadded_2024 jan_2024
        py_max_def py_min_key_def average_at_def Let_def)

lemma two_januaries_canonical:
  "average_dates_canonical two_januaries" "has_average two_januaries"
  by (simp_all add: average_dates_canonical_def has_average_def two_januaries_def
        average_entry_def canonical_def jan_2023 jan_2024)

text \<open>C5: in \<open>get_uk_house_price_index\<close> the yearly change percentage is computed from
  the most recent Average entry and the Average entry whose date is nearest, by
  absolute difference, to 365 days before that latest date, as
  ((latest - closest) / closest) * 100; it is absent (\<open>None\<close>) when the price of that
  closest entry is zero or is not found. With Average entries only at 2023-01 (200000)
  and 2024-01 (220000) the result is 10. The general part is stated for a series that
  has an Average entry and whose Average dates are texts as \<open>strftime\<close> prints them.\<close>

theorem yearly_change_selection:
  "(average_dates_canonical pd \<and> has_average pd \<longrightarrow>
     (\<exists>latest closest.
        latest \<in> set pd \<and> closest \<in> set pd \<and>
        property_type latest = ''Average'' \<and> property_type closest = ''Average'' \<and>
        (\<forall>item \<in> set pd. property_type item = ''Average'' \<longrightarrow>
           toordinal (date_of item) \<le> toordinal (date_of latest) \<and>
           \<bar>toordinal (date_of closest) - (toordinal (date_of latest) - 365)\<bar>
             \<le> \<bar>toordinal (date_of item) - (toordinal (date_of latest) - 365)\<bar>) \<and>
        (\<exists>s. summarise pd = Inr s \<and>
           yearly_change_percentage s =
             (if average_price closest > 0
              then Some (rat_of_int (average_price latest - average_price closest) /
                         rat_of_int (average_price closest) * 100)
              else None) \<and>
           current_average_price s =
             (if average_price latest > 0 then Some (average_price latest) else None)))) \<and>
   get_uk_house_price_index
      (Bindings [average_row ''2023-01'' 200000, average_row ''2024-01'' 220000]) =
    Inr \<lparr>current_average_price = Some 220000, yearly_change_percentage = Some 10,
         price_data_of = two_januaries\<rparr> \<and>
   get_uk_house_price_index
      (Bindings [average_row ''2023-01'' (2 / 5), average_row ''2024-01'' 220000]) =
    Inr \<lparr>current_average_price = Some 220000, yearly_change_percentage = None,
         price_data_of = [average_entry ''2023-01-01'' 0,
                          average_entry ''2024-01-01'' 220000]\<rparr> \<and>
   summarise [average_entry ''2024-1-1'' 220000] =
    Inr \<lparr>current_average_price = None, yearly_change_percentage = None,
         price_data_of = [average_entry ''2024-1-1'' 220000]\<rparr>"
proof (intro conjI impI)
  assume h: "average_dates_canonical pd \<and> has_average pd"
  then have can: "\<forall>item \<in> set pd. property_type item = ''Average'' \<longrightarrow> canonical item"
    by (auto simp: average_dates_canonical_def list_all_iff)
  from h have ex: "\<exists>item \<in> set pd. property_type item = ''Average''"
    by (auto simp: has_average_def filter_empty_conv)
  from can ex show "\<exists>latest closest.
        latest \<in> set pd \<and> closest \<in> set pd \<and>
        property_type latest = ''Average'' \<and> property_type closest = ''Average'' \<and>
        (\<forall>item \<in> set pd. property_type item = ''Average'' \<longrightarrow>
           toordinal (date_of item) \<le> toordinal (date_of latest) \<and>
           \<bar>toordinal (date_of closest) - (toordinal (date_of latest) - 365)\<bar>
             \<le> \<bar>toordinal (date_of item) - (toordinal (date_of latest) - 365)\<bar>) \<and>
        (\<exists>s. summarise pd = Inr s \<and>
           yearly_change_percentage s =
             (if average_price closest > 0
              then Some (rat_of_int (average_price latest - average_price closest) /
                         rat_of_int (average_price closest) * 100)
              else None) \<and>
           current_average_price s =
             (if average_price latest > 0 then Some (average_price latest) else None))"
    by (rule summarise_yearly_change)
next
  show "get_uk_house_price_index
      (Bindings [average_row ''2023-01'' 200000, average_row ''2024-01'' 220000]) =
    Inr \<lparr>current_average_price = Some 220000, yearly_change_percentage = Some 10,
         price_data_of = two_januaries\<rparr>"
    by (rule ten_percent)
next
  show "get_uk_house_price_index
      (Bindings [average_row ''2023-01'' (2 / 5), average_row ''2024-01'' 220000]) =
    Inr \<lparr>current_average_price = Some 220000, yearly_change_percentage = None,
         price_data_of = [average_entry ''2023-01-01'' 0,
                          average_entry ''2024-01-01'' 220000]\<rparr>"
    by (rule zero_price_absent)
next
  show "summarise [average_entry ''2024-1-1'' 220000] =
    Inr \<lparr>current_average_price = None, yearly_change_percentage = None,
         price_data_of = [average_entry ''2024-1-1'' 220000]\<rparr>"
    by (rule missing_price_absent)
qed

theorem yearly_change_selection_witness:
  "average_dates_canonical two_januaries \<and> has_average two_januaries \<and>
   (\<exists>latest closest s.
      latest \<in> set two_januaries \<and> closest \<in> set two_januaries \<and>
      summarise two_januaries = Inr s \<and>
      yearly_change_percentage s =
        (if average_price closest > 0
         then Some (rat_of_int (average_price latest - average_price closest) /
                    rat_of_int (average_price closest) * 100)
         else None))"
proof -
  have c: "average_dates_canonical two_januaries"
    by (rule two_januaries_canonical)
  have a: "has_average two_januaries"
    by (rule two_januaries_canonical)
  from yearly_change_selection [of two_januaries] c a show ?thesis by blast
qed

section \<open>Properties of get\_flood\_data\<close>




end
